theory Spec2Isabelle
  imports Complex_Main
begin

section \<open>Conventions of the embedding\<close>

text \<open>
  The program is TypeScript running in a browser. Its numbers are IEEE doubles; the
  embedding idealises every finite number as a \<^typ>\<open>real\<close> (so rounding is not modelled)
  and integer-valued counters as \<^typ>\<open>int\<close> or \<^typ>\<open>nat\<close>. Strings are
  \<^typ>\<open>string\<close>. The canvas text measurement \<^verbatim>\<open>ctx.measureText(s).width\<close> and
  \<^verbatim>\<open>String.prototype.toUpperCase\<close> are services of the host; they are parameters of
  the model and every theorem holds for all of them.
\<close>

section \<open>The word-wrap primitive \<^verbatim>\<open>getLines\<close> (utils/videoRenderer.ts)\<close>

text \<open>
  \<^verbatim>\<open>text.split(" ")\<close>: the pieces between consecutive space characters. The result is
  never empty; the empty string gives one empty word.
\<close>

fun split_space :: "string \<Rightarrow> string list" where
  "split_space [] = [[]]"
| "split_space (c # cs) =
     (if c = CHR '' '' then [] # split_space cs
      else (case split_space cs of
              [] \<Rightarrow> [[c]]
            | w # ws \<Rightarrow> (c # w) # ws))"

text \<open>\<^verbatim>\<open>lines.join(" ")\<close>: the inverse operation, used to state the reconstruction.\<close>

fun join_space :: "string list \<Rightarrow> string" where
  "join_space [] = []"
| "join_space [w] = w"
| "join_space (w # v # ws) = w @ '' '' @ join_space (v # ws)"

text \<open>
  The body of the \<^verbatim>\<open>for\<close> loop of \<^verbatim>\<open>getLines\<close>, over the words that are left:
  \<^verbatim>\<open>currentLine\<close> and \<^verbatim>\<open>lines\<close> are the loop's variables, and the final
  \<^verbatim>\<open>lines.push(currentLine)\<close> is the base case.
\<close>

fun getLines_loop ::
  "(string \<Rightarrow> real) \<Rightarrow> real \<Rightarrow> string list \<Rightarrow> string \<Rightarrow> string list \<Rightarrow> string list" where
  "getLines_loop msr maxWidth [] currentLine lines = lines @ [currentLine]"
| "getLines_loop msr maxWidth (word # rest) currentLine lines =
     (let width = msr (currentLine @ '' '' @ word) in
      if width < maxWidth
      then getLines_loop msr maxWidth rest (currentLine @ '' '' @ word) lines
      else getLines_loop msr maxWidth rest word (lines @ [currentLine]))"

definition getLines :: "(string \<Rightarrow> real) \<Rightarrow> string \<Rightarrow> real \<Rightarrow> string list" where
  "getLines msr str maxWidth =
     (let words = split_space str in
      getLines_loop msr maxWidth (tl words) (hd words) [])"

section \<open>The data model (types.ts)\<close>

datatype AnimationStyle = FADE_UP | SLIDE_RIGHT | POP

datatype Theme = COSMIC | NEON | LUXE | GLASS

datatype Layout = STACKED | SPLIT | DIAGONAL | MAGAZINE | LOWER_THIRD

text \<open>An optional field (\<^verbatim>\<open>title?: string\<close>) is an \<^typ>\<open>string option\<close>.\<close>

record TableData =
  title :: "string option"
  columns :: "string list"
  data :: "string list list"
  sources :: "string list option"
  summary :: "string option"

record AnimationConfig =
  style :: AnimationStyle
  theme :: Theme
  layout :: Layout
  rowDelay :: real
  highlightActive :: bool
  showProgressBar :: bool
  durationPerItem :: real
  backgroundImage :: "string option"
  backgroundImagePrompt :: "string option"
  showAppName :: bool
  showAiWatermark :: bool

text \<open>
  JavaScript truthiness of an optional string (\<^verbatim>\<open>if (data.summary)\<close>): absent and empty
  are both false. \<^verbatim>\<open>x || d\<close> is \<^verbatim>\<open>x\<close> when it is truthy and \<^verbatim>\<open>d\<close> otherwise.
\<close>

definition truthy :: "string option \<Rightarrow> bool" where
  "truthy x = (case x of None \<Rightarrow> False | Some v \<Rightarrow> v \<noteq> [])"

definition or_else :: "string option \<Rightarrow> string \<Rightarrow> string" where
  "or_else x d = (case x of None \<Rightarrow> d | Some v \<Rightarrow> if v = [] then d else v)"

text \<open>\<^verbatim>\<open>xs[i]\<close> on a JavaScript array: \<^verbatim>\<open>undefined\<close> outside the array, never an error.\<close>

definition js_index :: "'a list \<Rightarrow> int \<Rightarrow> 'a option" where
  "js_index xs i = (if 0 \<le> i \<and> i < int (length xs) then Some (xs ! nat i) else None)"

section \<open>Theme lookup \<^verbatim>\<open>getThemeConfig\<close> (utils/videoRenderer.ts)\<close>

record ThemeStyle =
  bg :: string
  fontMain :: string
  fontHeader :: string
  subjectColor :: string
  headerColor :: string
  valueColor :: string
  lineColor1 :: string
  lineColor2 :: string
  barColor1 :: string
  barColor2 :: string

fun getThemeConfig :: "Theme \<Rightarrow> ThemeStyle" where
  "getThemeConfig NEON =
     \<lparr>bg = ''#000000'', fontMain = ''JetBrains Mono, monospace'',
      fontHeader = ''JetBrains Mono, monospace'', subjectColor = ''#4ade80'',
      headerColor = ''#ec4899'', valueColor = ''#ffffff'', lineColor1 = ''#4ade80'',
      lineColor2 = ''#ec4899'', barColor1 = ''#22c55e'', barColor2 = ''#db2777''\<rparr>"
| "getThemeConfig LUXE =
     \<lparr>bg = ''#0a0a0a'', fontMain = ''Playfair Display, serif'',
      fontHeader = ''Inter, sans-serif'', subjectColor = ''#fef3c7'',
      headerColor = ''#78716c'', valueColor = ''#fbbf24'', lineColor1 = ''#d97706'',
      lineColor2 = ''#b45309'', barColor1 = ''#b45309'', barColor2 = ''#fbbf24''\<rparr>"
| "getThemeConfig GLASS =
     \<lparr>bg = ''#0f172a'', fontMain = ''Inter, sans-serif'',
      fontHeader = ''Inter, sans-serif'', subjectColor = ''#ffffff'',
      headerColor = ''#22d3ee'', valueColor = ''#cffafe'', lineColor1 = ''#06b6d4'',
      lineColor2 = ''#3b82f6'', barColor1 = ''#06b6d4'', barColor2 = ''#2563eb''\<rparr>"
| "getThemeConfig COSMIC =
     \<lparr>bg = ''#020617'', fontMain = ''Inter, sans-serif'',
      fontHeader = ''Inter, sans-serif'', subjectColor = ''#ffffff'',
      headerColor = ''#94a3b8'', valueColor = ''#fef9c3'', lineColor1 = ''#a855f7'',
      lineColor2 = ''#3b82f6'', barColor1 = ''#3b82f6'', barColor2 = ''#9333ea''\<rparr>"

section \<open>The host: canvas text measurement and upper-casing\<close>

text \<open>
  A canvas font string such as \<^verbatim>\<open>`bold ${hFSize}px ${themeStyle.fontHeader}`\<close> is kept as
  its three parts: the style prefix, the size in pixels and the family.
\<close>

datatype font = Font string real string

record host =
  measureText :: "font \<Rightarrow> string \<Rightarrow> real"
  toUpperCase :: "string \<Rightarrow> string"

section \<open>The adaptive layout solver of \<^verbatim>\<open>renderTableImage\<close> (image export)\<close>


















section \<open>The audio engine \<^verbatim>\<open>PresentationAudio\<close> (utils/audioSynth.ts)\<close>

text \<open>
  The Web Audio graph is kept as a store: every node the engine creates through its
  context gets the next index of \<open>graph\<close>. Of a node the model keeps its kind, its
  outgoing connections, and the times given to \<^verbatim>\<open>start\<close> and to the last \<^verbatim>\<open>stop\<close>
  (\<^verbatim>\<open>stop()\<close> without an argument stops at once: time 0). Parameter automation
  (frequencies, gain envelopes) produces no node and is left out. The two bus nodes
  \<^verbatim>\<open>masterGain\<close> and \<^verbatim>\<open>voiceGain\<close> are kept by their outgoing connections.
\<close>

datatype node_kind = Oscillator | Gain | BiquadFilter | BufferSource

datatype dest = ToNode nat | ToMasterGain | ToVoiceGain | ToDestination

record audio_node =
  kind :: node_kind
  outputs :: "dest list"
  startAt :: "real option"
  stopAt :: "real option"

datatype ctx_state = Suspended | Running | Closed

text \<open>
  \<open>pending\<close> are the handles of the timeouts of \<^verbatim>\<open>window.setTimeout\<close> that this engine
  has set and that have neither fired nor been cleared; \<open>nextHandle\<close> is the next handle
  the window gives out (handles are positive integers).
\<close>

record PresentationAudio =
  ctxState :: ctx_state
  graph :: "audio_node list"
  masterGainOut :: "dest list"
  voiceGainOut :: "dest list"
  nodes :: "nat list"
  streamDestination :: bool
  isPlaying :: bool
  nextNoteTime :: real
  timerID :: "nat option"
  voiceSource :: "nat option"
  pending :: "nat list"
  nextHandle :: nat

text \<open>
  The constructor. The state a new \<^verbatim>\<open>AudioContext\<close> starts in depends on the browser's
  autoplay policy, so it is an argument.
\<close>

definition new_PresentationAudio :: "bool \<Rightarrow> ctx_state \<Rightarrow> PresentationAudio" where
  "new_PresentationAudio forExport ctx0 =
     \<lparr>ctxState = ctx0, graph = [], masterGainOut = [ToDestination],
      voiceGainOut = [ToDestination], nodes = [], streamDestination = forExport,
      isPlaying = False, nextNoteTime = 0, timerID = None, voiceSource = None,
      pending = [], nextHandle = 1\<rparr>"







text \<open>
  \<^verbatim>\<open>stop()\<close> of a node has an effect on the kinds that have the method (the call is
  \<^verbatim>\<open>(node as any).stop?.()\<close>); \<^verbatim>\<open>disconnect()\<close> removes every outgoing connection.
  Both calls sit in \<^verbatim>\<open>try { } catch (e) {}\<close>, so nothing is thrown.
\<close>

definition has_stop :: "node_kind \<Rightarrow> bool" where
  "has_stop k = (k = Oscillator \<or> k = BufferSource)"

definition stop_node :: "audio_node \<Rightarrow> audio_node" where
  "stop_node n = n\<lparr>stopAt := (if has_stop (kind n) then Some 0 else stopAt n)\<rparr>"

definition disconnect_node :: "audio_node \<Rightarrow> audio_node" where
  "disconnect_node n = n\<lparr>outputs := []\<rparr>"

definition release_nodes :: "nat list \<Rightarrow> audio_node list \<Rightarrow> audio_node list" where
  "release_nodes ids g = fold (\<lambda>i g'. g'[i := disconnect_node (stop_node (g' ! i))]) ids g"


text \<open>\<^verbatim>\<open>triggerTransition()\<close>: an oscillator and a gain.\<close>

definition triggerTransition :: "real \<Rightarrow> PresentationAudio \<Rightarrow> PresentationAudio" where
  "triggerTransition t a =
     (let osc = length (graph a); gain = osc + 1
      in a\<lparr>graph := graph a @
              [\<lparr>kind = Oscillator, outputs = [ToNode gain], startAt = Some t,
                stopAt = Some (t + 4 / 10)\<rparr>,
               \<lparr>kind = Gain, outputs = [ToMasterGain], startAt = None, stopAt = None\<rparr>],
            nodes := nodes a @ [osc, gain]\<rparr>)"

text \<open>
  \<^verbatim>\<open>stop()\<close>. \<^verbatim>\<open>if (this.timerID)\<close> is the truthiness of a number: a handle 0 would be
  skipped.
\<close>

definition stop :: "PresentationAudio \<Rightarrow> PresentationAudio" where
  "stop a =
     (let a1 = a\<lparr>isPlaying := False\<rparr>;
          a2 = (case timerID a1 of
                  None \<Rightarrow> a1
                | Some h \<Rightarrow> if h = 0 then a1
                            else a1\<lparr>pending := removeAll h (pending a1), timerID := None\<rparr>);
          a3 = a2\<lparr>graph := release_nodes (nodes a2) (graph a2), nodes := []\<rparr>;
          a4 = (case voiceSource a3 of
                  None \<Rightarrow> a3
                | Some v \<Rightarrow> a3\<lparr>graph := (graph a3)[v := disconnect_node (stop_node (graph a3 ! v))],
                               voiceSource := None\<rparr>);
          a5 = a4\<lparr>masterGainOut := [], voiceGainOut := []\<rparr>
      in if ctxState a5 \<noteq> Closed then a5\<lparr>ctxState := Closed\<rparr> else a5)"




section \<open>The video export \<^verbatim>\<open>renderVideo\<close> (utils/videoRenderer.ts)\<close>

subsection \<open>Numbers that may leave the reals\<close>

text \<open>
  \<^verbatim>\<open>elapsed / totalDuration\<close> divides by zero (by \<open>+0\<close>, for a positive duration per
  item) when the table has no row, and JavaScript then yields \<^verbatim>\<open>NaN\<close> or an infinity instead of raising. The quotient and what is
  computed from it are therefore kept in a type with these three extra values.
\<close>

datatype jsnum = Num real | PosInfinity | NegInfinity | NaN

definition js_div :: "real \<Rightarrow> real \<Rightarrow> jsnum" where
  "js_div a b =
     (if b \<noteq> 0 then Num (a / b)
      else if a = 0 then NaN
      else if 0 < a then PosInfinity else NegInfinity)"

text \<open>\<^verbatim>\<open>Math.min(x, c)\<close> and \<^verbatim>\<open>x * c\<close> for a finite \<open>c\<close>, positive in the product.\<close>

fun js_min :: "jsnum \<Rightarrow> real \<Rightarrow> jsnum" where
  "js_min (Num r) c = Num (min r c)"
| "js_min PosInfinity c = Num c"
| "js_min NegInfinity c = NegInfinity"
| "js_min NaN c = NaN"

fun js_times :: "jsnum \<Rightarrow> real \<Rightarrow> jsnum" where
  "js_times (Num r) c = Num (r * c)"
| "js_times PosInfinity c = PosInfinity"
| "js_times NegInfinity c = NegInfinity"
| "js_times NaN c = NaN"

text \<open>
  The remainder operator \<^verbatim>\<open>%\<close>, whose result has the sign of the dividend: on integers
  and, for a divisor that is not zero, on reals.
\<close>

definition js_rem :: "int \<Rightarrow> int \<Rightarrow> int" where
  "js_rem a b = sgn a * (\<bar>a\<bar> mod \<bar>b\<bar>)"

definition js_fmod :: "real \<Rightarrow> real \<Rightarrow> real" where
  "js_fmod x y =
     x - y * real_of_int (if 0 \<le> x / y then \<lfloor>x / y\<rfloor> else \<lceil>x / y\<rceil>)"

subsection \<open>The step sequence\<close>

text \<open>
  The constants \<^verbatim>\<open>renderVideo\<close> derives before the loop. \<open>durationMs\<close> is the local
  \<^verbatim>\<open>durationPerItem = config.durationPerItem * 1000\<close>. The configuration's invariant is
  \<open>durationPerItem > 0\<close>; the model divides by \<open>durationMs\<close> in the reals and is exact
  whenever it is not zero.
\<close>

definition numCols :: "TableData \<Rightarrow> int" where
  "numCols d = int (length (columns d))"

definition numAttributes :: "TableData \<Rightarrow> int" where
  "numAttributes d = max 1 (numCols d - 1)"

definition totalItems :: "TableData \<Rightarrow> int" where
  "totalItems d = int (length (data d)) * numAttributes d"

definition durationMs :: "AnimationConfig \<Rightarrow> real" where
  "durationMs cfg = durationPerItem cfg * 1000"

definition totalDuration :: "TableData \<Rightarrow> AnimationConfig \<Rightarrow> real" where
  "totalDuration d cfg = real_of_int (totalItems d) * durationMs cfg"

definition endBuffer :: real where
  "endBuffer = 3000"

definition totalRunTime :: "TableData \<Rightarrow> AnimationConfig \<Rightarrow> real" where
  "totalRunTime d cfg = totalDuration d cfg + endBuffer"

text \<open>
  \<^verbatim>\<open>Math.floor(elapsed / durationPerItem)\<close>, the index before it is clamped (it is what
  \<^verbatim>\<open>lastStepIndex\<close> remembers), and the index after
  \<^verbatim>\<open>if (currentStepIndex >= totalSteps) currentStepIndex = totalSteps - 1\<close>.
\<close>

definition rawStepIndex :: "AnimationConfig \<Rightarrow> real \<Rightarrow> int" where
  "rawStepIndex cfg elapsed = \<lfloor>elapsed / durationMs cfg\<rfloor>"

definition currentStepIndex :: "TableData \<Rightarrow> AnimationConfig \<Rightarrow> real \<Rightarrow> int" where
  "currentStepIndex d cfg elapsed =
     (let totalSteps = totalItems d;
          i = rawStepIndex cfg elapsed
      in if i \<ge> totalSteps then totalSteps - 1 else i)"

definition rowIdxOf :: "TableData \<Rightarrow> int \<Rightarrow> int" where
  "rowIdxOf d i = i div numAttributes d"

definition attrIdxOf :: "TableData \<Rightarrow> int \<Rightarrow> int" where
  "attrIdxOf d i = js_rem i (numAttributes d)"

definition colIdxOf :: "TableData \<Rightarrow> int \<Rightarrow> int" where
  "colIdxOf d i = (if numCols d > 1 then attrIdxOf d i + 1 else 0)"

subsection \<open>The frame compositor\<close>

text \<open>
  What one call of \<^verbatim>\<open>drawFrame\<close> puts on the canvas, as the list of its drawing steps
  in the four groups of the code: background, title, the layout's body, and the overlays
  (progress bar and logo). Coordinates, colours and fonts that no decision depends on are
  left out; every branch of the code is kept.
\<close>

datatype image = Image real real

datatype draw =
    FillBackground string
  | CoverImage real
  | DarkOverlay
  | CosmicGradient
  | NeonGrid
  | TitleText string
  | SubjectLabel string
  | SubjectText string real real
  | Divider
  | AttributeHeader string real
  | AttributeValue "string list" real
  | ProgressBar jsnum
  | Logo

record frame =
  f_elapsed :: real
  f_step :: int
  f_background :: "draw list"
  f_title :: "draw list"
  f_body :: "draw list"
  f_overlay :: "draw list"

text \<open>The background: the bitmap when there is one, else the theme's procedural one.\<close>

definition backgroundOps ::
  "TableData \<Rightarrow> AnimationConfig \<Rightarrow> image option \<Rightarrow> real \<Rightarrow> draw list" where
  "backgroundOps d cfg bgImg elapsed =
     FillBackground (bg (getThemeConfig (theme cfg))) #
     (case bgImg of
        Some img \<Rightarrow> [CoverImage (1 + (elapsed / totalRunTime d cfg) * (1 / 10)), DarkOverlay]
      | None \<Rightarrow>
          if theme cfg = COSMIC then [CosmicGradient]
          else if theme cfg = NEON then [NeonGrid]
          else [])"

text \<open>The fade of the attribute block and the entrance of the subject (stacked layout).\<close>

definition opacityAt :: "AnimationConfig \<Rightarrow> real \<Rightarrow> real" where
  "opacityAt cfg stepTime =
     (let fadeTime = 300;
          o1 = (if stepTime < fadeTime then stepTime / fadeTime else 1)
      in if stepTime > durationMs cfg - fadeTime then (durationMs cfg - stepTime) / fadeTime
         else o1)"

text \<open>
  The body. \<^verbatim>\<open>subjectLabel = data.columns[0]\<close> is \<^verbatim>\<open>undefined\<close> for a table with no
  column, and \<^verbatim>\<open>subjectLabel.toUpperCase()\<close> then throws a \<^verbatim>\<open>TypeError\<close>: that is
  the result \<^const>\<open>None\<close>.
\<close>

definition bodyOps ::
  "host \<Rightarrow> TableData \<Rightarrow> AnimationConfig \<Rightarrow> real \<Rightarrow> int \<Rightarrow> draw list option" where
  "bodyOps H d cfg elapsed i =
     (let themeStyle = getThemeConfig (theme cfg);
          stepTime = js_fmod elapsed (durationMs cfg);
          rowIdx = rowIdxOf d i;
          attrIdx = attrIdxOf d i;
          colIdx = colIdxOf d i;
          currentRow = js_index (data d) rowIdx;
          subject = or_else (Option.bind currentRow (\<lambda>r. js_index r 0)) [];
          header = or_else (js_index (columns d) colIdx) [];
          val = or_else (Option.bind currentRow (\<lambda>r. js_index r colIdx)) [];
          opacity = opacityAt cfg stepTime
      in case js_index (columns d) 0 of
           None \<Rightarrow> None
         | Some subjectLabel \<Rightarrow>
             Some
               (if layout cfg = SPLIT
                then [SubjectLabel (toUpperCase H subjectLabel),
                      SubjectText subject 1 (1080 * 52 / 100)] @
                     (if numCols d > 1
                      then [AttributeHeader header opacity,
                            AttributeValue
                              (getLines (measureText H (Font ''bold'' 50 (fontMain themeStyle)))
                                 val 450) opacity]
                      else [])
                else (let isRowStart = (attrIdx = 0);
                          p = stepTime / 500;
                          subjectY = 1080 * 44 / 100
                                       + (if isRowStart \<and> stepTime < 500 then (1 - p) * 20 else 0);
                          subjectOpacity = (if isRowStart \<and> stepTime < 500 then p else 1)
                      in [SubjectLabel (toUpperCase H subjectLabel),
                          SubjectText subject subjectOpacity subjectY, Divider] @
                         (if numCols d > 1
                          then [AttributeHeader header opacity,
                                AttributeValue
                                  (getLines (measureText H (Font ''bold'' 60 (fontMain themeStyle)))
                                     val 900) opacity]
                          else []))))"

definition overlayOps ::
  "TableData \<Rightarrow> AnimationConfig \<Rightarrow> image option \<Rightarrow> real \<Rightarrow> draw list" where
  "overlayOps d cfg logoImg elapsed =
     (if showProgressBar cfg
      then [ProgressBar (js_min (js_times (js_div elapsed (totalDuration d cfg)) 1080) 1080)]
      else []) @
     (case logoImg of Some img \<Rightarrow> [Logo] | None \<Rightarrow> [])"

definition composeFrame ::
  "host \<Rightarrow> TableData \<Rightarrow> AnimationConfig \<Rightarrow> image option \<Rightarrow> image option \<Rightarrow> real \<Rightarrow> int
     \<Rightarrow> frame option" where
  "composeFrame H d cfg bgImg logoImg elapsed i =
     (let mainTitle = or_else (title d) []
      in case bodyOps H d cfg elapsed i of
           None \<Rightarrow> None
         | Some body \<Rightarrow>
             Some \<lparr>f_elapsed = elapsed, f_step = i,
                   f_background = backgroundOps d cfg bgImg elapsed,
                   f_title = (if mainTitle \<noteq> [] then [TitleText (toUpperCase H mainTitle)] else []),
                   f_body = body,
                   f_overlay = overlayOps d cfg logoImg elapsed\<rparr>)"

subsection \<open>The render loop\<close>

text \<open>
  The effects of the export that its caller or the browser can observe, in the order they
  happen: a progress report, a transition stinger, a drawn frame, an exception that
  leaves the frame callback, the recorder being stopped, the audio engine being stopped,
  and the promise being resolved with the blob made of the recorded chunks.
\<close>

datatype event =
    Progress jsnum
  | Transition
  | Drawn frame
  | Thrown
  | RecorderStopped
  | AudioStopped
  | Resolved "nat list"

datatype recorder_state = Recording | Inactive

text \<open>
  The variables the closure \<^verbatim>\<open>drawFrame\<close> reads and writes. \<open>frameRequested\<close> says
  that a \<^verbatim>\<open>requestAnimationFrame(drawFrame)\<close> is outstanding; \<open>chunks\<close> holds the sizes
  of the recorded chunks.
\<close>

record render_state =
  bgImage :: "image option"
  logoImage :: "image option"
  startTime :: "real option"
  lastStepIndex :: int
  frameRequested :: bool
  recorder :: recorder_state
  chunks :: "nat list"
  audioSynth :: PresentationAudio
  events :: "event list"

text \<open>
  What the browser contributes to a run: the size of the data the recorder delivers when
  it is stopped (\<^verbatim>\<open>recorder.start()\<close> is called without a time slice, so the data
  arrives then), and the reading of the audio clock at a given frame time.
\<close>

record browser =
  encodedSize :: nat
  audioClock :: "real \<Rightarrow> real"


text \<open>
  The part of \<^verbatim>\<open>renderVideo\<close> before the loop. \<open>ctxOk\<close> says whether
  \<^verbatim>\<open>canvas.getContext('2d')\<close> gave a context; \<open>loadImage\<close> gives the image a source
  resolves to, or \<^const>\<open>None\<close> when the promise of \<^verbatim>\<open>loadImage\<close> is rejected (the
  rejection is caught by the \<^verbatim>\<open>try { } catch (e) { console.warn(...) }\<close> around each
  call). \<open>a\<close> is the audio engine after \<^verbatim>\<open>new PresentationAudio(true)\<close>,
  \<^verbatim>\<open>await audioSynth.start()\<close> and \<^verbatim>\<open>playSpeech\<close>. The result is the state at the first
  \<^verbatim>\<open>requestAnimationFrame(drawFrame)\<close>, or the rejection of the promise.
\<close>

definition render_start ::
  "(string \<Rightarrow> image option) \<Rightarrow> AnimationConfig \<Rightarrow> string option \<Rightarrow> PresentationAudio
     \<Rightarrow> render_state" where
  "render_start loadImage cfg logoSrc a =
     \<lparr>bgImage = (case backgroundImage cfg of
                   None \<Rightarrow> None
                 | Some src \<Rightarrow> if src = [] then None else loadImage src),
      logoImage = (case logoSrc of
                     None \<Rightarrow> None
                   | Some src \<Rightarrow> if src = [] then None else loadImage src),
      startTime = None, lastStepIndex = - 1, frameRequested = True,
      recorder = Recording, chunks = [], audioSynth = a, events = []\<rparr>"


text \<open>
  \<^verbatim>\<open>recorder.stop()\<close>: the recorder delivers its data to \<^verbatim>\<open>ondataavailable\<close> (a chunk
  is kept when its size is positive) and then runs \<^verbatim>\<open>onstop\<close>, which stops the audio
  engine and resolves the promise with the blob of all chunks.
\<close>

definition recorder_stop :: "browser \<Rightarrow> render_state \<Rightarrow> render_state" where
  "recorder_stop B s =
     (let chunks' = (if encodedSize B > 0 then chunks s @ [encodedSize B] else chunks s)
      in s\<lparr>recorder := Inactive, chunks := chunks',
            audioSynth := stop (audioSynth s),
            events := events s @ [RecorderStopped, AudioStopped, Resolved chunks']\<rparr>)"

text \<open>
  \<^verbatim>\<open>if (!startTime) startTime = timestamp\<close>: the test is the truthiness of a number
  or \<^verbatim>\<open>null\<close>, so a start time of 0 counts as not set.
\<close>

definition startTimeAt :: "render_state \<Rightarrow> real \<Rightarrow> real" where
  "startTimeAt s timestamp =
     (case startTime s of
        None \<Rightarrow> timestamp
      | Some t0 \<Rightarrow> if t0 = 0 then timestamp else t0)"

definition elapsedAt :: "render_state \<Rightarrow> real \<Rightarrow> real" where
  "elapsedAt s timestamp = timestamp - startTimeAt s timestamp"

text \<open>
  One call of the frame callback \<^verbatim>\<open>drawFrame(timestamp)\<close>. The callback was requested,
  so the request is used up; it is renewed by the \<^verbatim>\<open>requestAnimationFrame(drawFrame)\<close>
  at the end of a frame that was drawn, and not when the recorder is stopped or when the
  drawing throws.
\<close>

definition drawFrame ::
  "host \<Rightarrow> browser \<Rightarrow> TableData \<Rightarrow> AnimationConfig \<Rightarrow> real \<Rightarrow> render_state \<Rightarrow> render_state" where
  "drawFrame H B d cfg timestamp s =
     (let elapsed = elapsedAt s timestamp;
          s1 = s\<lparr>startTime := Some (startTimeAt s timestamp), frameRequested := False\<rparr>
      in if elapsed > totalRunTime d cfg then recorder_stop B s1
         else
           (let progress = js_min (js_div elapsed (totalDuration d cfg)) 1;
                totalSteps = totalItems d;
                i = rawStepIndex cfg elapsed;
                fire = (i > lastStepIndex s \<and> i < totalSteps \<and> lastStepIndex s \<noteq> - 1);
                s2 = s1\<lparr>events := events s1 @ [Progress progress] @ (if fire then [Transition] else []),
                        audioSynth := (if fire then triggerTransition (audioClock B timestamp) (audioSynth s1)
                                       else audioSynth s1),
                        lastStepIndex := i\<rparr>
            in case composeFrame H d cfg (bgImage s) (logoImage s) elapsed
                      (currentStepIndex d cfg elapsed) of
                 None \<Rightarrow> s2\<lparr>events := events s2 @ [Thrown]\<rparr>
               | Some f \<Rightarrow> s2\<lparr>events := events s2 @ [Drawn f], frameRequested := True\<rparr>))"

text \<open>
  The loop, driven by the frame times the browser calls back with: a callback runs only
  while a request is outstanding.
\<close>

fun runFrames ::
  "host \<Rightarrow> browser \<Rightarrow> TableData \<Rightarrow> AnimationConfig \<Rightarrow> real list \<Rightarrow> render_state \<Rightarrow> render_state" where
  "runFrames H B d cfg [] s = s"
| "runFrames H B d cfg (t # ts) s =
     runFrames H B d cfg ts (if frameRequested s then drawFrame H B d cfg t s else s)"

text \<open>Counting the transition stingers and the resolutions of the promise in a log.\<close>

definition transitions :: "event list \<Rightarrow> nat" where
  "transitions es = length (filter (\<lambda>e. e = Transition) es)"

fun is_Resolved :: "event \<Rightarrow> bool" where
  "is_Resolved (Resolved b) = True"
| "is_Resolved e = False"

definition resolutions :: "event list \<Rightarrow> nat" where
  "resolutions es = length (filter is_Resolved es)"

fun is_attribute :: "draw \<Rightarrow> bool" where
  "is_attribute (AttributeHeader h a) = True"
| "is_attribute (AttributeValue ls a) = True"
| "is_attribute x = False"

text \<open>The frames a log holds.\<close>

fun drawn :: "event list \<Rightarrow> frame list" where
  "drawn [] = []"
| "drawn (Drawn f # es) = f # drawn es"
| "drawn (e # es) = drawn es"


section \<open>The live preview's interval timer (the \<^verbatim>\<open>TablePreview\<close> component)\<close>






section \<open>Concrete inputs\<close>

text \<open>
  A host whose text width is half the font size per character, the table of the
  specification's scenario A, and a configuration with two seconds per item.
\<close>

definition host0 :: host where
  "host0 = \<lparr>measureText = (\<lambda>f s. case f of Font _ px _ \<Rightarrow> px * real (length s) / 2),
            toUpperCase = (\<lambda>s. s)\<rparr>"


definition config0 :: AnimationConfig where
  "config0 = \<lparr>style = FADE_UP, theme = COSMIC, layout = STACKED, rowDelay = 1,
              highlightActive = True, showProgressBar = True, durationPerItem = 2,
              backgroundImage = None, backgroundImagePrompt = None, showAppName = True,
              showAiWatermark = False\<rparr>"


text \<open>
  A browser that delivers five units of encoded data, a table with the subject column
  only, an empty table, an image loader that fails for every source, and a configuration
  that names a background image.
\<close>

definition browser0 :: browser where
  "browser0 = \<lparr>encodedSize = 5, audioClock = (\<lambda>t. t / 1000)\<rparr>"

definition singleColumn :: TableData where
  "singleColumn = \<lparr>title = None, columns = [''X''], data = [[''a''], [''b'']],
                   sources = None, summary = None\<rparr>"

definition emptyTable :: TableData where
  "emptyTable = \<lparr>title = None, columns = [''X''], data = [], sources = None, summary = None\<rparr>"

definition failingLoad :: "string \<Rightarrow> image option" where
  "failingLoad src = None"


definition engine0 :: PresentationAudio where
  "engine0 = new_PresentationAudio True Running"

section \<open>Properties of the word-wrap primitive\<close>

lemma split_space_nonempty: "split_space s \<noteq> []"
  by (induction s) (auto split: list.splits)

lemma join_space_Cons: "ws \<noteq> [] \<Longrightarrow> join_space (w # ws) = w @ '' '' @ join_space ws"
  by (cases ws) simp_all

lemma join_split_space: "join_space (split_space s) = s"
proof (induction s)
  case Nil
  show ?case by simp
next
  case (Cons c cs)
  show ?case
  proof (cases "c = CHR '' ''")
    case True
    with Cons show ?thesis
      by (simp add: join_space_Cons split_space_nonempty)
  next
    case False
    obtain w ws where sp: "split_space cs = w # ws"
      using split_space_nonempty [of cs] by (cases "split_space cs") auto
    have "join_space ((c # w) # ws) = c # join_space (w # ws)"
      by (cases ws) simp_all
    with Cons False sp show ?thesis by simp
  qed
qed

lemma split_space_no_space: "w \<in> set (split_space s) \<Longrightarrow> CHR '' '' \<notin> set w"
proof (induction s arbitrary: w)
  case Nil
  then show ?case by simp
next
  case (Cons c cs)
  show ?case
  proof (cases "c = CHR '' ''")
    case True
    with Cons show ?thesis by auto
  next
    case False
    obtain v vs where sp: "split_space cs = v # vs"
      using split_space_nonempty [of cs] by (cases "split_space cs") auto
    from Cons.prems False sp have "w = c # v \<or> w \<in> set vs" by simp
    then show ?thesis
    proof
      assume "w = c # v"
      moreover have "CHR '' '' \<notin> set v" using Cons.IH [of v] sp by simp
      ultimately show ?thesis using False by simp
    next
      assume "w \<in> set vs"
      then show ?thesis using Cons.IH [of w] sp by simp
    qed
  qed
qed

lemma join_space_snoc: "join_space (ls @ [a]) @ '' '' @ b = join_space (ls @ [a, b])"
  by (induction ls rule: join_space.induct) simp_all

lemma join_space_snoc_append:
  "join_space (ls @ [a @ '' '' @ b]) = join_space (ls @ [a, b])"
  by (induction ls rule: join_space.induct) simp_all

lemma join_space_two_append:
  "join_space (ls @ a # rest) = join_space (ls @ [a]) @ (if rest = [] then [] else '' '' @ join_space rest)"
proof (induction ls rule: join_space.induct)
  case 1
  show ?case by (cases rest) simp_all
next
  case (2 w)
  show ?case by (cases rest) simp_all
next
  case (3 w v ws)
  then show ?case by simp
qed

text \<open>
  The loop invariant: every finished line, and the line being built, is either a single
  word (it holds no space) or was accepted by the width test.
\<close>

lemma getLines_loop_width:
  assumes "\<forall>l \<in> set lines. CHR '' '' \<in> set l \<longrightarrow> msr l < maxWidth"
    and "CHR '' '' \<in> set currentLine \<longrightarrow> msr currentLine < maxWidth"
    and "\<forall>w \<in> set rest. CHR '' '' \<notin> set w"
  shows "\<forall>l \<in> set (getLines_loop msr maxWidth rest currentLine lines).
           CHR '' '' \<in> set l \<longrightarrow> msr l < maxWidth"
  using assms
proof (induction rest arbitrary: currentLine lines)
  case Nil
  then show ?case by auto
next
  case (Cons word rest)
  show ?case
  proof (cases "msr (currentLine @ '' '' @ word) < maxWidth")
    case True
    have "\<forall>l \<in> set (getLines_loop msr maxWidth rest (currentLine @ '' '' @ word) lines).
            CHR '' '' \<in> set l \<longrightarrow> msr l < maxWidth"
      using Cons.prems True by (intro Cons.IH) auto
    with True show ?thesis by simp
  next
    case False
    have "\<forall>l \<in> set (getLines_loop msr maxWidth rest word (lines @ [currentLine])).
            CHR '' '' \<in> set l \<longrightarrow> msr l < maxWidth"
      using Cons.prems by (intro Cons.IH) auto
    with False show ?thesis by simp
  qed
qed

lemma getLines_loop_join:
  "join_space (getLines_loop msr maxWidth rest currentLine lines) =
     join_space (lines @ currentLine # rest)"
proof (induction rest arbitrary: currentLine lines)
  case Nil
  show ?case by simp
next
  case (Cons word rest)
  have a: "join_space (lines @ (currentLine @ '' '' @ word) # rest) =
           join_space (lines @ currentLine # word # rest)"
    using join_space_two_append [of lines "currentLine @ '' '' @ word" rest]
      join_space_two_append [of "lines @ [currentLine]" word rest]
      join_space_snoc_append [of lines currentLine word]
    by simp
  show ?case
    using Cons.IH [of "currentLine @ '' '' @ word" lines]
      Cons.IH [of word "lines @ [currentLine]"] a
    by (simp add: Let_def)
qed

lemma getLines_nonempty: "getLines msr str maxWidth \<noteq> []"
proof -
  have "getLines_loop msr maxWidth rest cur lines \<noteq> []" for rest cur lines
    by (induction rest arbitrary: cur lines) (simp_all add: Let_def)
  then show ?thesis by (simp add: getLines_def Let_def)
qed

text \<open>
  Claim C4. For every text, every maximum width and every width-measuring function, each line
  that \<^const>\<open>getLines\<close> produces is no wider than the maximum, unless it is one single
  word (a line with no space in it) that is wider than the maximum; and joining the
  lines with single spaces gives back the text.
\<close>

theorem getLines_wrap:
  "(\<forall>l \<in> set (getLines msr str maxWidth).
      msr l \<le> maxWidth \<or> (CHR '' '' \<notin> set l \<and> maxWidth < msr l))
   \<and> join_space (getLines msr str maxWidth) = str"
proof
  obtain w ws where sp: "split_space str = w # ws"
    using split_space_nonempty [of str] by (cases "split_space str") auto
  have nosp: "\<forall>v \<in> set (w # ws). CHR '' '' \<notin> set v"
    using split_space_no_space [of _ str] sp by auto
  have "\<forall>l \<in> set (getLines_loop msr maxWidth ws w []).
          CHR '' '' \<in> set l \<longrightarrow> msr l < maxWidth"
    using nosp by (intro getLines_loop_width) auto
  then show "\<forall>l \<in> set (getLines msr str maxWidth).
      msr l \<le> maxWidth \<or> (CHR '' '' \<notin> set l \<and> maxWidth < msr l)"
    unfolding getLines_def Let_def sp by (auto simp: not_le [symmetric])
next
  obtain w ws where sp: "split_space str = w # ws"
    using split_space_nonempty [of str] by (cases "split_space str") auto
  have "join_space (getLines_loop msr maxWidth ws w []) = join_space (w # ws)"
    using getLines_loop_join [of msr maxWidth ws w "[]"] by simp
  then show "join_space (getLines msr str maxWidth) = str"
    unfolding getLines_def Let_def sp using join_split_space [of str] sp by simp
qed

theorem getLines_wrap_witness:
  "getLines (\<lambda>s. real (length s)) ''aa bb cccccccc d'' 6 = [''aa bb'', ''cccccccc'', ''d'']
   \<and> (6::real) < real (length ''cccccccc'')
   \<and> join_space (getLines (\<lambda>s. real (length s)) ''aa bb cccccccc d'' 6) = ''aa bb cccccccc d''"
  using getLines_wrap [of "\<lambda>s. real (length s)" "''aa bb cccccccc d''" 6]
  by (simp add: getLines_def)

section \<open>Properties of the layout solver\<close>






















section \<open>Properties of the audio engine\<close>

lemma stop_node_idem: "stop_node (stop_node n) = stop_node n"
  by (simp add: stop_node_def)









































section \<open>Properties of the video export\<close>







lemma drawn_append: "drawn (xs @ ys) = drawn xs @ drawn ys"
  by (induction xs rule: drawn.induct) simp_all

lemma transitions_append: "transitions (xs @ ys) = transitions xs + transitions ys"
  by (simp add: transitions_def)

lemma resolutions_append: "resolutions (xs @ ys) = resolutions xs + resolutions ys"
  by (simp add: resolutions_def)


text \<open>What a frame callback that stops the recorder does.\<close>

lemma drawFrame_stop:
  assumes "totalRunTime d cfg < elapsedAt s t"
  shows "drawFrame H B d cfg t s =
           recorder_stop B (s\<lparr>startTime := Some (startTimeAt s t), frameRequested := False\<rparr>)"
  using assms by (simp add: drawFrame_def Let_def)

lemma recorder_stop_fields:
  "recorder (recorder_stop B s) = Inactive
   \<and> audioSynth (recorder_stop B s) = stop (audioSynth s)
   \<and> frameRequested (recorder_stop B s) = frameRequested s
   \<and> startTime (recorder_stop B s) = startTime s
   \<and> lastStepIndex (recorder_stop B s) = lastStepIndex s
   \<and> bgImage (recorder_stop B s) = bgImage s
   \<and> logoImage (recorder_stop B s) = logoImage s
   \<and> events (recorder_stop B s) =
       events s @ [RecorderStopped, AudioStopped, Resolved (chunks (recorder_stop B s))]"
  by (simp add: recorder_stop_def Let_def)

text \<open>What a frame callback that draws does.\<close>

lemma drawFrame_draw:
  assumes "\<not> totalRunTime d cfg < elapsedAt s t"
  shows "\<exists>tail. events (drawFrame H B d cfg t s) =
           events s @ [Progress (js_min (js_div (elapsedAt s t) (totalDuration d cfg)) 1)]
             @ (if rawStepIndex cfg (elapsedAt s t) > lastStepIndex s
                   \<and> rawStepIndex cfg (elapsedAt s t) < totalItems d \<and> lastStepIndex s \<noteq> - 1
                then [Transition] else [])
             @ tail
         \<and> (case composeFrame H d cfg (bgImage s) (logoImage s) (elapsedAt s t)
                    (currentStepIndex d cfg (elapsedAt s t)) of
               None \<Rightarrow> tail = [Thrown] \<and> \<not> frameRequested (drawFrame H B d cfg t s)
             | Some f \<Rightarrow> tail = [Drawn f] \<and> frameRequested (drawFrame H B d cfg t s))
         \<and> lastStepIndex (drawFrame H B d cfg t s) = rawStepIndex cfg (elapsedAt s t)
         \<and> startTime (drawFrame H B d cfg t s) = Some (startTimeAt s t)
         \<and> recorder (drawFrame H B d cfg t s) = recorder s
         \<and> chunks (drawFrame H B d cfg t s) = chunks s
         \<and> bgImage (drawFrame H B d cfg t s) = bgImage s
         \<and> logoImage (drawFrame H B d cfg t s) = logoImage s"
  using assms
  by (cases "composeFrame H d cfg (bgImage s) (logoImage s) (elapsedAt s t)
                    (currentStepIndex d cfg (elapsedAt s t))")
     (simp_all add: drawFrame_def Let_def)

lemma images_drawFrame:
  "bgImage (drawFrame H B d cfg t s) = bgImage s \<and> logoImage (drawFrame H B d cfg t s) = logoImage s"
proof (cases "totalRunTime d cfg < elapsedAt s t")
  case True
  then show ?thesis by (simp add: drawFrame_stop recorder_stop_fields)
next
  case False
  from drawFrame_draw [OF this] show ?thesis by blast
qed

lemma images_runFrames:
  "bgImage (runFrames H B d cfg ts s) = bgImage s \<and> logoImage (runFrames H B d cfg ts s) = logoImage s"
  by (induction ts arbitrary: s) (simp_all add: images_drawFrame)

lemma composeFrame_Some:
  "columns d \<noteq> [] \<Longrightarrow> \<exists>f. composeFrame H d cfg bgImg logoImg e i = Some f"
  by (cases "columns d") (simp_all add: composeFrame_def bodyOps_def Let_def js_index_def)

lemma composeFrame_fields:
  "composeFrame H d cfg bgImg logoImg e i = Some f \<Longrightarrow>
     f_elapsed f = e \<and> f_step f = i \<and> f_background f = backgroundOps d cfg bgImg e
     \<and> bodyOps H d cfg e i = Some (f_body f)"
  by (auto simp: composeFrame_def Let_def split: option.splits)

text \<open>A property of every composed frame holds of every frame a run draws.\<close>

lemma drawn_drawFrame:
  assumes P: "\<And>e i f. composeFrame H d cfg (bgImage s) (logoImage s) e i = Some f \<Longrightarrow>
                 e \<le> totalRunTime d cfg \<Longrightarrow> P f"
    and old: "\<forall>f \<in> set (drawn (events s)). P f"
  shows "\<forall>f \<in> set (drawn (events (drawFrame H B d cfg t s))). P f"
proof (cases "totalRunTime d cfg < elapsedAt s t")
  case True
  then show ?thesis using old
    by (simp add: drawFrame_stop recorder_stop_fields drawn_append)
next
  case False
  from drawFrame_draw [OF this, of H B] obtain tail where
    ev: "events (drawFrame H B d cfg t s) =
           events s @ [Progress (js_min (js_div (elapsedAt s t) (totalDuration d cfg)) 1)]
             @ (if rawStepIndex cfg (elapsedAt s t) > lastStepIndex s
                   \<and> rawStepIndex cfg (elapsedAt s t) < totalItems d \<and> lastStepIndex s \<noteq> - 1
                then [Transition] else [])
             @ tail"
    and tl: "case composeFrame H d cfg (bgImage s) (logoImage s) (elapsedAt s t)
                    (currentStepIndex d cfg (elapsedAt s t)) of
               None \<Rightarrow> tail = [Thrown] \<and> \<not> frameRequested (drawFrame H B d cfg t s)
             | Some f \<Rightarrow> tail = [Drawn f] \<and> frameRequested (drawFrame H B d cfg t s)"
    by blast
  have "\<forall>f \<in> set (drawn tail). P f"
    using tl P False
    by (cases "composeFrame H d cfg (bgImage s) (logoImage s) (elapsedAt s t)
                    (currentStepIndex d cfg (elapsedAt s t))") auto
  then show ?thesis using old unfolding ev by (auto simp: drawn_append)
qed

lemma drawn_runFrames:
  assumes P: "\<And>e i f. composeFrame H d cfg (bgImage s) (logoImage s) e i = Some f \<Longrightarrow>
                 e \<le> totalRunTime d cfg \<Longrightarrow> P f"
    and old: "\<forall>f \<in> set (drawn (events s)). P f"
  shows "\<forall>f \<in> set (drawn (events (runFrames H B d cfg ts s))). P f"
  using assms
proof (induction ts arbitrary: s)
  case Nil
  then show ?case by simp
next
  case (Cons t ts)
  show ?case
  proof (cases "frameRequested s")
    case False
    then show ?thesis using Cons.IH [of s] Cons.prems by simp
  next
    case True
    have "\<forall>f \<in> set (drawn (events (drawFrame H B d cfg t s))). P f"
      using Cons.prems by (intro drawn_drawFrame) auto
    then have "\<forall>f \<in> set (drawn (events (runFrames H B d cfg ts (drawFrame H B d cfg t s)))). P f"
      using Cons.prems(1) by (intro Cons.IH) (auto simp: images_drawFrame)
    with True show ?thesis by simp
  qed
qed



lemma js_rem_one: "js_rem i 1 = 0"
  by (simp add: js_rem_def)

lemma bodyOps_single_column:
  assumes "length (columns d) = 1"
  shows "\<exists>body. bodyOps H d cfg e i = Some body \<and> (\<forall>op \<in> set body. \<not> is_attribute op)"
proof -
  obtain c where c: "columns d = [c]" using assms by (cases "columns d") auto
  have n: "numCols d = 1" using c by (simp add: numCols_def)
  show ?thesis
    using c n by (simp add: bodyOps_def Let_def js_index_def)
qed

text \<open>
  Claim C9. For a table with exactly one column, \<open>numAttributes\<close> is 1, the number of
  steps is the number of rows, the column index is 0 at every step, every frame can be
  composed, and no frame of any export run holds the attribute header or the attribute
  value.
\<close>

theorem single_column_never_draws_attribute:
  assumes one: "length (columns d) = 1"
  shows "numAttributes d = 1 \<and> totalItems d = int (length (data d))
         \<and> (\<forall>i. colIdxOf d i = 0)
         \<and> (\<forall>H bgImg logoImg e i. \<exists>f. composeFrame H d cfg bgImg logoImg e i = Some f
                \<and> (\<forall>op \<in> set (f_body f). \<not> is_attribute op))
         \<and> (\<forall>H B ts loadImage logoSrc a.
               \<forall>f \<in> set (drawn (events (runFrames H B d cfg ts
                                          (render_start loadImage cfg logoSrc a)))).
                 \<forall>op \<in> set (f_body f). \<not> is_attribute op)"
proof -
  have n: "numCols d = 1" using one by (simp add: numCols_def)
  have a: "numAttributes d = 1" using n by (simp add: numAttributes_def)
  have t: "totalItems d = int (length (data d))" using a by (simp add: totalItems_def)
  have c: "\<forall>i. colIdxOf d i = 0" using n by (simp add: colIdxOf_def)
  have comp: "\<forall>op \<in> set (f_body f). \<not> is_attribute op"
    if "composeFrame H d cfg bgImg logoImg e i = Some f" for H bgImg logoImg e i f
    using bodyOps_single_column [OF one, of H cfg e i] composeFrame_fields [OF that] by auto
  have ex: "\<exists>f. composeFrame H d cfg bgImg logoImg e i = Some f
                \<and> (\<forall>op \<in> set (f_body f). \<not> is_attribute op)" for H bgImg logoImg e i
  proof -
    have "columns d \<noteq> []" using one by auto
    from composeFrame_Some [OF this, of H cfg bgImg logoImg e i] comp show ?thesis by blast
  qed
  have run: "\<forall>f \<in> set (drawn (events (runFrames H B d cfg ts (render_start loadImage cfg logoSrc a)))).
                 \<forall>op \<in> set (f_body f). \<not> is_attribute op" for H B ts loadImage logoSrc a
    by (rule drawn_runFrames) (auto dest: comp simp: render_start_def)
  show ?thesis using a t c ex run by (simp only: simp_thms) blast
qed





theorem single_column_never_draws_attribute_witness:
  "length (columns singleColumn) = 1
   \<and> numAttributes singleColumn = 1 \<and> totalItems singleColumn = 2
   \<and> colIdxOf singleColumn 1 = 0
   \<and> map f_body (drawn (events (runFrames host0 browser0 singleColumn config0 [100, 2100]
                                    (render_start failingLoad config0 None engine0)))) =
       [[SubjectLabel ''X'', SubjectText ''a'' 0 (2476 / 5), Divider],
        [SubjectLabel ''X'', SubjectText ''b'' 0 (2476 / 5), Divider]]"
proof -
  have h: "length (columns singleColumn) = 1" by (simp add: singleColumn_def)
  have n: "int (length (data singleColumn)) = 2" by (simp add: singleColumn_def)
  have c: "map f_body (drawn (events (runFrames host0 browser0 singleColumn config0 [100, 2100]
                                    (render_start failingLoad config0 None engine0)))) =
       [[SubjectLabel ''X'', SubjectText ''a'' 0 (2476 / 5), Divider],
        [SubjectLabel ''X'', SubjectText ''b'' 0 (2476 / 5), Divider]]"
    by code_simp
  from single_column_never_draws_attribute [OF h, of config0]
  have "numAttributes singleColumn = 1 \<and> totalItems singleColumn = 2
        \<and> colIdxOf singleColumn 1 = 0"
    using n by simp
  with h c show ?thesis by (simp only: simp_thms)
qed
















text \<open>
  Claim C5, at the input where the code departs from it. For a table with a column and no
  row the number of steps and the total duration are 0, and the first frame callback of
  the export divides 0 by 0: it reports the progress \<open>NaN\<close> and draws the progress bar
  with the width \<open>NaN\<close>. The rest of the claim holds in this run: nothing is thrown, the
  step is \<open>-1\<close>, no transition is triggered, and the promise is resolved once after the end
  buffer.
\<close>

theorem empty_table_progress_is_NaN:
  "totalItems emptyTable = 0 \<and> totalDuration emptyTable config0 = 0
   \<and> events (drawFrame host0 browser0 emptyTable config0 100
               (render_start failingLoad config0 None engine0)) =
       [Progress NaN,
        Drawn \<lparr>f_elapsed = 0, f_step = - 1,
               f_background = [FillBackground ''#020617'', CosmicGradient],
               f_title = [],
               f_body = [SubjectLabel ''X'', SubjectText [] 0 (2476 / 5), Divider],
               f_overlay = [ProgressBar NaN]\<rparr>]
   \<and> transitions (events (runFrames host0 browser0 emptyTable config0 [100, 1100, 3200]
                             (render_start failingLoad config0 None engine0))) = 0
   \<and> resolutions (events (runFrames host0 browser0 emptyTable config0 [100, 1100, 3200]
                             (render_start failingLoad config0 None engine0))) = 1"
  by code_simp

end
